theory Spec2Isabelle
  imports Complex_Main "HOL-Library.AList"
begin

section \<open>Data model of \<open>shared/job_manager.py\<close>\<close>

text \<open>
  The two enumerations of the module. \<open>JobStage_value\<close> is the \<open>.value\<close> of a
  stage, the string that is stored in \<open>stages_completed\<close> and in the execution
  history.
\<close>

datatype JobStatus = PENDING | RUNNING | COMPLETED | FAILED | CANCELLED | RETRY

datatype JobStage =
    INITIALIZATION
  | DOCUMENT_RETRIEVAL
  | WEB_RESEARCH
  | CITATION_VERIFICATION
  | COMPLIANCE_CHECK
  | REPORT_GENERATION
  | FINALIZATION

fun JobStage_value :: "JobStage \<Rightarrow> string" where
  "JobStage_value INITIALIZATION = ''initialization''"
| "JobStage_value DOCUMENT_RETRIEVAL = ''document_retrieval''"
| "JobStage_value WEB_RESEARCH = ''web_research''"
| "JobStage_value CITATION_VERIFICATION = ''citation_verification''"
| "JobStage_value COMPLIANCE_CHECK = ''compliance_check''"
| "JobStage_value REPORT_GENERATION = ''report_generation''"
| "JobStage_value FINALIZATION = ''finalization''"

text \<open>
  Python values that occur in result dictionaries. A \<open>Dict[str, Any]\<close> is an
  association list in insertion order.
\<close>

datatype pyval =
    PyNone
  | PyBool bool
  | PyInt int
  | PyStr string
  | PyList "pyval list"
  | PyDict "(string \<times> pyval) list"

type_synonym pydict = "(string \<times> pyval) list"

text \<open>
  Truthiness of an \<open>Optional[str]\<close>, as tested by \<open>if idempotency_key:\<close> and
  \<open>not job.started_at\<close>: \<open>None\<close> and the empty string are false.
\<close>

fun truthy :: "string option \<Rightarrow> bool" where
  "truthy None = False"
| "truthy (Some s) = (s \<noteq> [])"

text \<open>
  \<open>JobProgress\<close>. The percentage is a Python float; it is modelled by the exact
  real number. \<open>total_stages\<close> is the dataclass default 7 in every object the
  module constructs and is never assigned; with \<open>total_stages = 0\<close> the Python
  division raises \<open>ZeroDivisionError\<close>, which the model does not represent, so
  every statement about \<open>JobProgress_update\<close> is made for a non-zero total.
\<close>

record JobProgress =
  current_stage :: JobStage
  stages_completed :: "string list"
  total_stages :: int
  completed_stages :: int
  percentage :: real
  current_operation :: string
  last_updated :: string

text \<open>The dataclass defaults; \<open>now\<close> is the clock reading of the default factory.\<close>

definition new_JobProgress :: "string \<Rightarrow> JobProgress" where
  "new_JobProgress now =
     \<lparr> current_stage = INITIALIZATION,
       stages_completed = [],
       total_stages = 7,
       completed_stages = 0,
       percentage = 0,
       current_operation = [],
       last_updated = now \<rparr>"

text \<open>\<open>JobProgress.update\<close>; \<open>now\<close> is \<open>datetime.now().isoformat()\<close>.\<close>

definition JobProgress_update :: "string \<Rightarrow> JobProgress \<Rightarrow> JobStage \<Rightarrow> string \<Rightarrow> JobProgress" where
  "JobProgress_update now p stg operation =
     (let p1 = p\<lparr> current_stage := stg, current_operation := operation \<rparr>;
          p2 = (if JobStage_value stg \<notin> set (stages_completed p1)
                then (let p' = p1\<lparr> stages_completed := stages_completed p1 @ [JobStage_value stg] \<rparr>
                      in p'\<lparr> completed_stages := int (length (stages_completed p')) \<rparr>)
                else p1);
          p3 = p2\<lparr> percentage := (real_of_int (completed_stages p2) / real_of_int (total_stages p2)) * 100 \<rparr>
      in p3\<lparr> last_updated := now \<rparr>)"

text \<open>One entry of \<open>execution_history\<close> (a dictionary with these four keys).\<close>

record execution_record =
  rec_timestamp :: string
  rec_stage :: string
  rec_success :: bool
  rec_details :: string

record Job =
  job_id :: string
  query :: string
  status :: JobStatus
  created_at :: string
  started_at :: "string option"
  completed_at :: "string option"
  progress :: JobProgress
  result :: "pydict option"
  error :: "string option"
  retry_count :: int
  max_retries :: int
  cancellation_requested :: bool
  idempotency_key :: "string option"
  execution_history :: "execution_record list"

text \<open>
  The constructor call \<open>Job(job_id=..., query=..., idempotency_key=...)\<close> of
  \<open>create_job\<close>: every other field takes its default. \<open>now\<close> is the clock reading
  of \<open>created_at\<close>, \<open>now'\<close> the one of the fresh \<open>JobProgress\<close>.
\<close>

definition new_Job :: "string \<Rightarrow> string \<Rightarrow> string option \<Rightarrow> string \<Rightarrow> string \<Rightarrow> Job" where
  "new_Job jid q key now now' =
     \<lparr> job_id = jid,
       query = q,
       status = PENDING,
       created_at = now,
       started_at = None,
       completed_at = None,
       progress = new_JobProgress now',
       result = None,
       error = None,
       retry_count = 0,
       max_retries = 3,
       cancellation_requested = False,
       idempotency_key = key,
       execution_history = [] \<rparr>"

text \<open>\<open>Job.add_execution_record\<close>.\<close>

definition add_execution_record :: "string \<Rightarrow> Job \<Rightarrow> string \<Rightarrow> bool \<Rightarrow> string \<Rightarrow> Job" where
  "add_execution_record now job stg ok details =
     job\<lparr> execution_history := execution_history job @
       [\<lparr> rec_timestamp = now, rec_stage = stg, rec_success = ok, rec_details = details \<rparr>] \<rparr>"

section \<open>The registry: \<open>JobManager\<close>\<close>

text \<open>
  The state of a \<open>JobManager\<close> is its dictionary \<open>jobs\<close>, an association list in
  insertion order (\<open>create_job\<close> iterates over \<open>jobs.values()\<close>). \<open>map_of\<close> is the
  lookup, \<open>AList.update\<close> the assignment \<open>jobs[k] = v\<close> (in place for a key that
  is present, appended otherwise) and also the mutation of the object stored
  under a key. Every method body runs under the lock, so a method is one atomic
  function on the state.
\<close>

type_synonym JobManager = "(string \<times> Job) list"

text \<open>
  The scan of \<open>create_job\<close>: the first job, in insertion order, with the given
  key whose status is COMPLETED or RUNNING.
\<close>

fun find_existing :: "string option \<Rightarrow> Job list \<Rightarrow> Job option" where
  "find_existing key [] = None"
| "find_existing key (job # rest) =
     (if idempotency_key job = key \<and> status job \<in> set [COMPLETED, RUNNING]
      then Some job else find_existing key rest)"

text \<open>
  \<open>create_job\<close>. \<open>uuid\<close> is the value of \<open>str(uuid.uuid4())\<close>; \<open>now\<close>, \<open>now'\<close> are
  the clock readings of the two default factories. Returns the job and the new
  registry.
\<close>

definition create_job ::
  "string \<Rightarrow> string \<Rightarrow> string \<Rightarrow> JobManager \<Rightarrow> string \<Rightarrow> string option \<Rightarrow> Job \<times> JobManager" where
  "create_job uuid now now' m q key =
     (case (if truthy key then find_existing key (map snd m) else None) of
        Some job \<Rightarrow> (job, m)
      | None \<Rightarrow> (let job = new_Job uuid q key now now' in (job, AList.update uuid job m)))"

definition get_job :: "JobManager \<Rightarrow> string \<Rightarrow> Job option" where
  "get_job m jid = map_of m jid"

definition get_all_jobs :: "JobManager \<Rightarrow> Job list" where
  "get_all_jobs m = map snd m"

definition update_job_status :: "string \<Rightarrow> JobManager \<Rightarrow> string \<Rightarrow> JobStatus \<Rightarrow> JobManager" where
  "update_job_status now m jid st =
     (case map_of m jid of
        None \<Rightarrow> m
      | Some job0 \<Rightarrow>
          (let job = job0\<lparr> status := st \<rparr>;
               job' = (if st = RUNNING \<and> \<not> truthy (started_at job)
                       then job\<lparr> started_at := Some now \<rparr>
                       else if st \<in> set [COMPLETED, FAILED, CANCELLED]
                       then job\<lparr> completed_at := Some now \<rparr>
                       else job)
           in AList.update jid job' m))"

definition update_job_progress :: "string \<Rightarrow> JobManager \<Rightarrow> string \<Rightarrow> JobStage \<Rightarrow> string \<Rightarrow> JobManager" where
  "update_job_progress now m jid stg operation =
     (case map_of m jid of
        None \<Rightarrow> m
      | Some job \<Rightarrow>
          AList.update jid (job\<lparr> progress := JobProgress_update now (progress job) stg operation \<rparr>) m)"

text \<open>\<open>cancel_job\<close> returns its boolean and the new registry.\<close>

definition cancel_job :: "JobManager \<Rightarrow> string \<Rightarrow> bool \<times> JobManager" where
  "cancel_job m jid =
     (case map_of m jid of
        None \<Rightarrow> (False, m)
      | Some job \<Rightarrow>
          (if status job = RUNNING
           then (True, AList.update jid (job\<lparr> cancellation_requested := True \<rparr>) m)
           else (False, m)))"

definition is_cancellation_requested :: "JobManager \<Rightarrow> string \<Rightarrow> bool" where
  "is_cancellation_requested m jid =
     (case get_job m jid of None \<Rightarrow> False | Some job \<Rightarrow> cancellation_requested job)"

definition mark_job_completed :: "string \<Rightarrow> JobManager \<Rightarrow> string \<Rightarrow> pydict \<Rightarrow> JobManager" where
  "mark_job_completed now m jid res =
     (case map_of m jid of
        None \<Rightarrow> m
      | Some job \<Rightarrow>
          AList.update jid
            (job\<lparr> status := COMPLETED,
                  result := Some res,
                  completed_at := Some now,
                  progress := (progress job)\<lparr> percentage := 100 \<rparr> \<rparr>) m)"

definition mark_job_failed :: "string \<Rightarrow> JobManager \<Rightarrow> string \<Rightarrow> string \<Rightarrow> bool \<Rightarrow> JobManager" where
  "mark_job_failed now m jid err allow_retry =
     (case map_of m jid of
        None \<Rightarrow> m
      | Some job0 \<Rightarrow>
          (let job = job0\<lparr> error := Some err \<rparr>;
               job' = (if allow_retry \<and> retry_count job < max_retries job
                       then job\<lparr> status := RETRY, retry_count := retry_count job + 1 \<rparr>
                       else job\<lparr> status := FAILED, completed_at := Some now \<rparr>)
           in AList.update jid job' m))"

section \<open>The runner: \<open>Agent/background_executor.py\<close>\<close>

text \<open>
  An exception is its type name (\<open>type(e).__name__\<close>) and its message
  (\<open>str(e)\<close>).
\<close>

datatype exn = Exception (exn_type: string) (exn_msg: string)

text \<open>
  The external collaborators of \<open>execute_job\<close>: the constructor call
  \<open>ResearchAgent()\<close>, which returns (\<open>None\<close>) or raises, and
  \<open>agent.run_research(query)\<close>, which returns a dictionary or raises.
\<close>

record collaborators =
  agent_init :: "exn option"
  run_research :: "string \<Rightarrow> exn + pydict"

text \<open>
  The surroundings of one run. The coroutine gives up control at every
  \<open>await\<close>; \<open>cancel_at n\<close> says whether a client calls
  \<open>job_manager.cancel_job(job_id)\<close> while the run is suspended at its \<open>n\<close>-th
  \<open>await\<close> (counted from 0). \<open>clock n\<close> is the \<open>n\<close>-th reading of
  \<open>datetime.now().isoformat()\<close>. The length of the sleeps (\<open>stage_delays\<close>) has
  no effect on the state and is left out.
\<close>

record env =
  cancel_at :: "nat \<Rightarrow> bool"
  clock :: "nat \<Rightarrow> string"

record world =
  mgr :: JobManager
  awaits :: nat
  reads :: nat

text \<open>A registry method that reads the clock, run in the world.\<close>

definition with_clock :: "env \<Rightarrow> (string \<Rightarrow> JobManager \<Rightarrow> JobManager) \<Rightarrow> world \<Rightarrow> world" where
  "with_clock e f w = w\<lparr> mgr := f (clock e (reads w)) (mgr w), reads := Suc (reads w) \<rparr>"

text \<open>One \<open>await\<close>: the concurrent cancel request, if any, takes effect.\<close>

definition suspend :: "env \<Rightarrow> string \<Rightarrow> world \<Rightarrow> world" where
  "suspend e jid w =
     w\<lparr> mgr := (if cancel_at e (awaits w) then snd (cancel_job (mgr w) jid) else mgr w),
        awaits := Suc (awaits w) \<rparr>"

text \<open>
  A mutation of the job object the runner (or a request handler) holds by
  reference: it is the object stored in the registry, so the registry sees it.
\<close>

definition mutate :: "string \<Rightarrow> (Job \<Rightarrow> Job) \<Rightarrow> JobManager \<Rightarrow> JobManager" where
  "mutate jid f m = (case map_of m jid of None \<Rightarrow> m | Some job \<Rightarrow> AList.update jid (f job) m)"

definition check_cancellation :: "world \<Rightarrow> string \<Rightarrow> bool" where
  "check_cancellation w jid = is_cancellation_requested (mgr w) jid"

definition cancelled_result :: pydict where
  "cancelled_result =
     [(''success'', PyBool False), (''cancelled'', PyBool True),
      (''message'', PyStr ''Job was cancelled'')]"

definition handle_cancellation :: "env \<Rightarrow> string \<Rightarrow> world \<Rightarrow> pydict \<times> world" where
  "handle_cancellation e jid w =
     (cancelled_result, with_clock e (\<lambda>now m. update_job_status now m jid CANCELLED) w)"

text \<open>
  The text \<open>f"{operation} ({progress_percent:.0f}%)"\<close> of sub-step \<open>step\<close> of
  \<open>range(5)\<close>, where \<open>progress_percent = ((step + 1) / 5) * 100\<close>.
\<close>

fun step_operation :: "string \<Rightarrow> nat \<Rightarrow> string" where
  "step_operation operation step =
     operation @ '' ('' @
       (if step = 0 then ''20'' else if step = 1 then ''40'' else if step = 2 then ''60''
        else if step = 3 then ''80'' else ''100'') @ ''%)''"

text \<open>The \<open>for step in range(steps)\<close> loop of \<open>_execute_stage_with_delay\<close>.\<close>

fun stage_steps :: "env \<Rightarrow> string \<Rightarrow> JobStage \<Rightarrow> string \<Rightarrow> nat list \<Rightarrow> world \<Rightarrow> world" where
  "stage_steps e jid stg operation [] w = w"
| "stage_steps e jid stg operation (step # rest) w =
     (let w1 = suspend e jid w
      in if check_cancellation w1 jid then w1
         else stage_steps e jid stg operation rest
                (with_clock e
                   (\<lambda>now m. update_job_progress now m jid stg (step_operation operation step)) w1))"

definition execute_stage_with_delay :: "env \<Rightarrow> string \<Rightarrow> JobStage \<Rightarrow> string \<Rightarrow> world \<Rightarrow> world" where
  "execute_stage_with_delay e jid stg operation w =
     stage_steps e jid stg operation [0..<5]
       (with_clock e (\<lambda>now m. update_job_progress now m jid stg operation) w)"

text \<open>\<open>job.add_execution_record(stage=stg.value, success=True, details=...)\<close>.\<close>

definition record_stage :: "env \<Rightarrow> string \<Rightarrow> JobStage \<Rightarrow> string \<Rightarrow> world \<Rightarrow> world" where
  "record_stage e jid stg details w =
     with_clock e
       (\<lambda>now. mutate jid (\<lambda>job. add_execution_record now job (JobStage_value stg) True details)) w"

text \<open>
  The pattern of stages 1 to 6: run the paced stage, return the cancellation
  result if the flag is set, go on with \<open>k\<close> otherwise.
\<close>

definition checked_stage ::
  "env \<Rightarrow> string \<Rightarrow> JobStage \<Rightarrow> string \<Rightarrow> world \<Rightarrow> (world \<Rightarrow> (exn + pydict) \<times> world)
     \<Rightarrow> (exn + pydict) \<times> world" where
  "checked_stage e jid stg operation w k =
     (let w1 = execute_stage_with_delay e jid stg operation w
      in if check_cancellation w1 jid
         then (case handle_cancellation e jid w1 of (r, w2) \<Rightarrow> (Inr r, w2))
         else k w1)"

text \<open>
  The \<open>try\<close> block of \<open>execute_job\<close>. \<open>Inl\<close> is an exception that leaves the
  block, \<open>Inr\<close> the value of a \<open>return\<close>. \<open>job\<close> is the object fetched before
  the block (only its immutable \<open>query\<close> is read from it).
\<close>

definition try_block :: "collaborators \<Rightarrow> env \<Rightarrow> string \<Rightarrow> Job \<Rightarrow> world \<Rightarrow> (exn + pydict) \<times> world" where
  "try_block c e jid job w0 =
     checked_stage e jid INITIALIZATION
       ''Initializing research agent and loading configurations'' w0 (\<lambda>w.
     case agent_init c of
       Some ex \<Rightarrow> (Inl ex, w)
     | None \<Rightarrow>
     checked_stage e jid DOCUMENT_RETRIEVAL
       ''Searching document database using RAG''
       (record_stage e jid INITIALIZATION ''Agent initialized successfully'' w) (\<lambda>w.
     checked_stage e jid WEB_RESEARCH
       ''Conducting web research for current information''
       (record_stage e jid DOCUMENT_RETRIEVAL ''Documents retrieved from vector database'' w) (\<lambda>w.
     checked_stage e jid CITATION_VERIFICATION
       ''Verifying and formatting citations''
       (record_stage e jid WEB_RESEARCH ''Web research completed'' w) (\<lambda>w.
     checked_stage e jid COMPLIANCE_CHECK
       ''Running PII scan and compliance checks''
       (record_stage e jid CITATION_VERIFICATION ''Citations verified and formatted'' w) (\<lambda>w.
     checked_stage e jid REPORT_GENERATION
       ''Generating comprehensive research report''
       (record_stage e jid COMPLIANCE_CHECK ''Compliance check passed'' w) (\<lambda>w.
     let w' = suspend e jid w
     in case run_research c (query job) of
          Inl ex \<Rightarrow> (Inl ex, w')
        | Inr res \<Rightarrow>
            (let w1 = record_stage e jid REPORT_GENERATION ''Report generated successfully'' w';
                 w2 = execute_stage_with_delay e jid FINALIZATION ''Finalizing report and cleanup'' w1;
                 w3 = record_stage e jid FINALIZATION ''Job finalized'' w2
             in (Inr res, with_clock e (\<lambda>now m. mark_job_completed now m jid res) w3))))))))"

text \<open>
  \<open>execute_job\<close>: the lookup, the transition to RUNNING, the \<open>try\<close> block and
  its two handlers. \<open>asyncio.CancelledError\<close> is recognised by its type name.
\<close>

definition execute_job :: "collaborators \<Rightarrow> env \<Rightarrow> string \<Rightarrow> world \<Rightarrow> (exn + pydict) \<times> world" where
  "execute_job c e jid w =
     (case get_job (mgr w) jid of
        None \<Rightarrow> (Inl (Exception ''ValueError'' (''Job '' @ jid @ '' not found'')), w)
      | Some job \<Rightarrow>
          (case try_block c e jid job
                  (with_clock e (\<lambda>now m. update_job_status now m jid RUNNING) w) of
             (Inr r, w1) \<Rightarrow> (Inr r, w1)
           | (Inl ex, w1) \<Rightarrow>
               (if exn_type ex = ''CancelledError''
                then (case handle_cancellation e jid w1 of (r, w2) \<Rightarrow> (Inr r, w2))
                else (Inl ex,
                      with_clock e (\<lambda>now m. mark_job_failed now m jid (exn_msg ex) True) w1))))"

section \<open>The request handlers: \<open>API/jobs.py\<close>\<close>

fun JobStatus_value :: "JobStatus \<Rightarrow> string" where
  "JobStatus_value PENDING = ''pending''"
| "JobStatus_value RUNNING = ''running''"
| "JobStatus_value COMPLETED = ''completed''"
| "JobStatus_value FAILED = ''failed''"
| "JobStatus_value CANCELLED = ''cancelled''"
| "JobStatus_value RETRY = ''retry''"

datatype http_error = HTTPException (status_code: nat) (detail: string)

text \<open>
  \<open>execute_job_wrapper\<close>: runs \<open>execute_job\<close> to its end and returns its result;
  an exception is caught, the job is marked failed once more, and the wrapper
  returns \<open>None\<close>.
\<close>

definition execute_job_wrapper :: "collaborators \<Rightarrow> env \<Rightarrow> string \<Rightarrow> world \<Rightarrow> pydict option \<times> world" where
  "execute_job_wrapper c e jid w =
     (case execute_job c e jid w of
        (Inr r, w1) \<Rightarrow> (Some r, w1)
      | (Inl ex, w1) \<Rightarrow>
          (None,
           with_clock e
             (\<lambda>now m. mark_job_failed now m jid (exn_type ex @ '': '' @ exn_msg ex) True) w1))"

text \<open>
  \<open>retry_job\<close>. The state is the registry and the queue of background tasks (the
  job ids handed to \<open>execute_job_wrapper\<close>). \<open>now\<close> is the clock reading that
  \<open>update_job_status\<close> would take.
\<close>

definition retry_job ::
  "string \<Rightarrow> JobManager \<times> string list \<Rightarrow> string
     \<Rightarrow> (http_error + pydict) \<times> (JobManager \<times> string list)" where
  "retry_job now s jid =
     (case get_job (fst s) jid of
        None \<Rightarrow> (Inl (HTTPException 404 ''Job not found''), s)
      | Some job \<Rightarrow>
          (if status job \<notin> set [FAILED, CANCELLED]
           then (Inl (HTTPException 400
                        (''Cannot retry job with status: '' @ JobStatus_value (status job))), s)
           else (let m1 = update_job_status now (fst s) jid PENDING;
                     m2 = mutate jid (\<lambda>j. j\<lparr> error := None \<rparr>) m1
                 in (Inr [(''message'', PyStr ''Job retry initiated''), (''job_id'', PyStr jid)],
                     (m2, snd s @ [jid])))))"

section \<open>Sequences of calls and example data\<close>

text \<open>
  \<open>mark_job_failed(job_id, err)\<close> called in a row (\<open>allow_retry\<close> is \<open>True\<close>), once for
  every pair of a clock reading and an error message.
\<close>

fun fail_in_a_row :: "(string \<times> string) list \<Rightarrow> JobManager \<Rightarrow> string \<Rightarrow> JobManager" where
  "fail_in_a_row [] m jid = m"
| "fail_in_a_row ((now, err) # calls) m jid =
     fail_in_a_row calls (mark_job_failed now m jid err True) jid"

text \<open>
  The percentages after each of a sequence of \<open>JobProgress.update\<close> calls on one
  tracker.
\<close>

fun percentages :: "JobProgress \<Rightarrow> (string \<times> JobStage \<times> string) list \<Rightarrow> real list" where
  "percentages p [] = []"
| "percentages p ((now, stg, operation) # calls) =
     (let p' = JobProgress_update now p stg operation in percentage p' # percentages p' calls)"

text \<open>
  The invariant of a tracker: the counter is the length of the list, no stage is
  listed twice, and the total is positive.
\<close>

definition progress_inv :: "JobProgress \<Rightarrow> bool" where
  "progress_inv p \<longleftrightarrow>
     completed_stages p = int (length (stages_completed p)) \<and>
     distinct (stages_completed p) \<and> 0 < total_stages p"

text \<open>A registry holding one freshly created job, and the same job while it runs.\<close>

definition fresh_job :: Job where
  "fresh_job = new_Job ''job-1'' ''X'' None ''t0'' ''t0''"

definition fresh_registry :: JobManager where
  "fresh_registry = [(''job-1'', fresh_job)]"

definition running_registry :: JobManager where
  "running_registry = update_job_status ''t1'' fresh_registry ''job-1'' RUNNING"

definition failed_registry :: JobManager where
  "failed_registry = mark_job_failed ''t2'' running_registry ''job-1'' ''boom'' False"

text \<open>
  The state of the job \<open>jid\<close> in the middle of a run, relative to the job as it
  was when the \<open>try\<close> block was entered: status and retry counters are as they
  were, the cancellation flag is \<open>flag\<close>, and the execution history has grown by
  records that name the stages \<open>names\<close>, each with \<open>success = True\<close>.
\<close>

definition stage_state :: "string \<Rightarrow> Job \<Rightarrow> string list \<Rightarrow> bool \<Rightarrow> world \<Rightarrow> bool" where
  "stage_state jid job names flag w \<longleftrightarrow>
     (\<exists>j recs.
        get_job (mgr w) jid = Some j \<and>
        status j = status job \<and>
        retry_count j = retry_count job \<and>
        max_retries j = max_retries job \<and>
        cancellation_requested j = flag \<and>
        execution_history j = execution_history job @ recs \<and>
        map rec_stage recs = names \<and> list_all rec_success recs)"

section \<open>Properties of the registry\<close>

lemma get_job_update:
  "get_job (AList.update k v m) k' = (if k' = k then Some v else get_job m k')"
  by (simp add: get_job_def update_conv')

lemma get_job_mark_failed:
  "get_job m jid = Some job \<Longrightarrow>
   get_job (mark_job_failed now m jid err allow) jid =
     Some (if allow \<and> retry_count job < max_retries job
           then job\<lparr>error := Some err, status := RETRY, retry_count := retry_count job + 1\<rparr>
           else job\<lparr>error := Some err, status := FAILED, completed_at := Some now\<rparr>)"
  by (auto simp: mark_job_failed_def get_job_def update_conv' Let_def)

lemma fresh_registry_get: "get_job fresh_registry ''job-1'' = Some fresh_job"
  by (simp add: fresh_registry_def get_job_def)

text \<open>
  C7. Right after \<open>create_job(q)\<close> (no idempotency key), \<open>get_job\<close> on the id of
  the returned job gives that job, with status PENDING, query \<open>q\<close>, no result,
  no error and \<open>retry_count = 0\<close>.
\<close>

theorem create_then_get:
  "create_job uuid now now' m q None = (job, m') \<Longrightarrow>
   get_job m' (job_id job) = Some job \<and> status job = PENDING \<and> query job = q \<and>
   result job = None \<and> error job = None \<and> retry_count job = 0"
  by (auto simp: create_job_def new_Job_def get_job_update Let_def)

theorem create_then_get_witness:
  "create_job ''job-1'' ''t0'' ''t0'' [] ''X'' None = (fresh_job, fresh_registry) \<and>
   get_job fresh_registry (job_id fresh_job) = Some fresh_job \<and>
   status fresh_job = PENDING \<and> query fresh_job = ''X'' \<and>
   result fresh_job = None \<and> error fresh_job = None \<and> retry_count fresh_job = 0"
proof -
  have h: "create_job ''job-1'' ''t0'' ''t0'' [] ''X'' None = (fresh_job, fresh_registry)"
    by (simp add: create_job_def fresh_job_def fresh_registry_def Let_def)
  show ?thesis using h create_then_get [OF h] by simp
qed

text \<open>
  C6. \<open>cancel_job\<close> returns \<open>True\<close> exactly when the job exists and is RUNNING;
  then the only change is that the job's flag is set. In every other case (other
  status, unknown id) it returns \<open>False\<close> and the registry is unchanged.
\<close>

theorem cancel_job_iff_running:
  "cancel_job m jid = (b, m') \<Longrightarrow>
   (b \<longleftrightarrow> (\<exists>job. get_job m jid = Some job \<and> status job = RUNNING)) \<and>
   (b \<longrightarrow> (\<exists>job. get_job m jid = Some job \<and>
             m' = AList.update jid (job\<lparr>cancellation_requested := True\<rparr>) m \<and>
             get_job m' jid = Some (job\<lparr>cancellation_requested := True\<rparr>)) \<and>
          is_cancellation_requested m' jid) \<and>
   (\<not> b \<longrightarrow> m' = m)"
  by (auto simp: cancel_job_def get_job_def is_cancellation_requested_def update_conv'
           split: option.splits if_splits)

theorem cancel_job_iff_running_witness:
  "cancel_job running_registry ''job-1'' =
     (True, [(''job-1'', fresh_job\<lparr>status := RUNNING, started_at := Some ''t1'',
                                   cancellation_requested := True\<rparr>)]) \<and>
   cancel_job fresh_registry ''job-1'' = (False, fresh_registry) \<and>
   cancel_job fresh_registry ''job-2'' = (False, fresh_registry) \<and>
   is_cancellation_requested
     [(''job-1'', fresh_job\<lparr>status := RUNNING, started_at := Some ''t1'',
                             cancellation_requested := True\<rparr>)] ''job-1''"
proof -
  have r: "running_registry =
      [(''job-1'', fresh_job\<lparr>status := RUNNING, started_at := Some ''t1''\<rparr>)]"
    by (simp add: running_registry_def fresh_registry_def update_job_status_def fresh_job_def
        new_Job_def)
  have h1: "cancel_job running_registry ''job-1'' =
     (True, [(''job-1'', fresh_job\<lparr>status := RUNNING, started_at := Some ''t1'',
                                   cancellation_requested := True\<rparr>)])"
    by (simp add: r cancel_job_def)
  have h2: "cancel_job fresh_registry ''job-1'' = (False, fresh_registry)"
    by (simp add: cancel_job_def fresh_registry_def fresh_job_def new_Job_def)
  have h3: "cancel_job fresh_registry ''job-2'' = (False, fresh_registry)"
    by (simp add: cancel_job_def fresh_registry_def)
  show ?thesis
    using h1 h2 h3 cancel_job_iff_running [OF h1] cancel_job_iff_running [OF h2]
      cancel_job_iff_running [OF h3]
    by simp
qed

text \<open>
  C2. For a job of the registry, \<open>mark_job_failed\<close> with \<open>allow_retry\<close> and
  \<open>retry_count < max_retries\<close> sets RETRY and adds one to \<open>retry_count\<close>;
  otherwise it sets FAILED and \<open>completed_at\<close>. So, for a job with
  \<open>0 \<le> retry_count \<le> max_retries\<close>, \<open>max_retries + 1\<close> calls in a row end in
  FAILED with \<open>retry_count = max_retries\<close>.
\<close>

lemma fail_in_a_row_state:
  "get_job m jid = Some job \<Longrightarrow> retry_count job \<le> max_retries job \<Longrightarrow> calls \<noteq> [] \<Longrightarrow>
   \<exists>job'. get_job (fail_in_a_row calls m jid) jid = Some job' \<and>
     max_retries job' = max_retries job \<and>
     retry_count job' = min (retry_count job + int (length calls)) (max_retries job) \<and>
     (if retry_count job + int (length calls) \<le> max_retries job
      then status job' = RETRY
      else status job' = FAILED \<and> completed_at job' = Some (fst (last calls)))"
proof (induction calls arbitrary: m job)
  case Nil
  then show ?case by simp
next
  case (Cons c calls)
  obtain now err where c: "c = (now, err)" by (cases c)
  let ?m1 = "mark_job_failed now m jid err True"
  let ?j1 = "(if retry_count job < max_retries job
          then job\<lparr>error := Some err, status := RETRY, retry_count := retry_count job + 1\<rparr>
          else job\<lparr>error := Some err, status := FAILED, completed_at := Some now\<rparr>)"
  have g1: "get_job ?m1 jid = Some ?j1"
    using get_job_mark_failed [OF Cons.prems(1), of now err True] by simp
  have le1: "retry_count ?j1 \<le> max_retries ?j1" using Cons.prems(2) by auto
  show ?case
  proof (cases "calls = []")
    case True
    then show ?thesis using g1 Cons.prems(2) c by (auto simp: min_def)
  next
    case False
    from Cons.IH [OF g1 le1 False] obtain job' where
      j': "get_job (fail_in_a_row calls ?m1 jid) jid = Some job'"
          "max_retries job' = max_retries ?j1"
          "retry_count job' = min (retry_count ?j1 + int (length calls)) (max_retries ?j1)"
          "(if retry_count ?j1 + int (length calls) \<le> max_retries ?j1
            then status job' = RETRY
            else status job' = FAILED \<and> completed_at job' = Some (fst (last calls)))"
      by blast
    show ?thesis
      using j' False Cons.prems(2) c
      by (auto simp: min_def split: if_splits)
  qed
qed

theorem mark_failed_retry_bound:
  "get_job m jid = Some job \<Longrightarrow>
   (allow \<and> retry_count job < max_retries job \<longrightarrow>
      get_job (mark_job_failed now m jid err allow) jid =
        Some (job\<lparr>error := Some err, status := RETRY, retry_count := retry_count job + 1\<rparr>)) \<and>
   (\<not> (allow \<and> retry_count job < max_retries job) \<longrightarrow>
      get_job (mark_job_failed now m jid err allow) jid =
        Some (job\<lparr>error := Some err, status := FAILED, completed_at := Some now\<rparr>)) \<and>
   (0 \<le> retry_count job \<and> retry_count job \<le> max_retries job \<and>
    int (length calls) = max_retries job + 1 \<longrightarrow>
      (\<exists>job'. get_job (fail_in_a_row calls m jid) jid = Some job' \<and>
         status job' = FAILED \<and> retry_count job' = max_retries job \<and>
         completed_at job' = Some (fst (last calls))))"
proof (intro conjI impI)
  assume g: "get_job m jid = Some job"
  assume h: "0 \<le> retry_count job \<and> retry_count job \<le> max_retries job \<and>
    int (length calls) = max_retries job + 1"
  then have ne: "calls \<noteq> []" by auto
  from fail_in_a_row_state [OF g _ ne] h
  show "\<exists>job'. get_job (fail_in_a_row calls m jid) jid = Some job' \<and>
         status job' = FAILED \<and> retry_count job' = max_retries job \<and>
         completed_at job' = Some (fst (last calls))"
    by (auto simp: min_def split: if_splits)
qed (auto simp: get_job_mark_failed)

theorem mark_failed_retry_bound_witness:
  "get_job fresh_registry ''job-1'' = Some fresh_job \<and>
   get_job (mark_job_failed ''t1'' fresh_registry ''job-1'' ''e'' True) ''job-1'' =
     Some (fresh_job\<lparr>error := Some ''e'', status := RETRY, retry_count := 1\<rparr>) \<and>
   get_job (mark_job_failed ''t1'' fresh_registry ''job-1'' ''e'' False) ''job-1'' =
     Some (fresh_job\<lparr>error := Some ''e'', status := FAILED, completed_at := Some ''t1''\<rparr>) \<and>
   (\<exists>job'. get_job (fail_in_a_row [(''t1'', ''e1''), (''t2'', ''e2''), (''t3'', ''e3''),
                (''t4'', ''e4'')] fresh_registry ''job-1'') ''job-1'' = Some job' \<and>
      status job' = FAILED \<and> retry_count job' = 3 \<and> completed_at job' = Some ''t4'')"
proof -
  have rc: "retry_count fresh_job = 0" "max_retries fresh_job = 3"
    by (simp_all add: fresh_job_def new_Job_def)
  show ?thesis
    using fresh_registry_get
      mark_failed_retry_bound [OF fresh_registry_get, of True "''t1''" "''e''"
        "[(''t1'', ''e1''), (''t2'', ''e2''), (''t3'', ''e3''), (''t4'', ''e4'')]"]
      mark_failed_retry_bound [OF fresh_registry_get, of False "''t1''" "''e''" "[]"]
    by (simp add: rc)
qed

text \<open>
  C9. \<open>retry_job\<close> on a FAILED or CANCELLED job sets the status to PENDING and
  clears \<open>error\<close>; every other field of the job (progress, execution history,
  retry count) and every other job is as before, and the job id is queued for
  execution. On a job in any other status the request is rejected and nothing
  changes.
\<close>

theorem retry_job_resets_status_only:
  "get_job m jid = Some job \<Longrightarrow>
   (status job \<in> {FAILED, CANCELLED} \<longrightarrow>
      (\<exists>r m'. retry_job now (m, tasks) jid = (Inr r, (m', tasks @ [jid])) \<and>
         get_job m' jid = Some (job\<lparr>status := PENDING, error := None\<rparr>) \<and>
         (\<forall>k. k \<noteq> jid \<longrightarrow> get_job m' k = get_job m k))) \<and>
   (status job \<notin> {FAILED, CANCELLED} \<longrightarrow>
      (\<exists>err. retry_job now (m, tasks) jid = (Inl err, (m, tasks))))"
  by (auto simp: retry_job_def get_job_def update_job_status_def mutate_def update_conv' Let_def)

theorem retry_job_resets_status_only_witness:
  "get_job failed_registry ''job-1'' =
     Some (fresh_job\<lparr>status := FAILED, started_at := Some ''t1'', completed_at := Some ''t2'',
                     error := Some ''boom''\<rparr>) \<and>
   (\<exists>r m'. retry_job ''t3'' (failed_registry, []) ''job-1'' = (Inr r, (m', [''job-1''])) \<and>
      get_job m' ''job-1'' =
        Some (fresh_job\<lparr>started_at := Some ''t1'', completed_at := Some ''t2'',
                        status := PENDING, error := None\<rparr>)) \<and>
   (\<exists>err. retry_job ''t3'' (fresh_registry, []) ''job-1'' = (Inl err, (fresh_registry, [])))"
proof -
  have g: "get_job failed_registry ''job-1'' =
     Some (fresh_job\<lparr>status := FAILED, started_at := Some ''t1'', completed_at := Some ''t2'',
                     error := Some ''boom''\<rparr>)"
    by (simp add: failed_registry_def running_registry_def fresh_registry_def fresh_job_def
        new_Job_def mark_job_failed_def update_job_status_def get_job_def)
  have s: "status fresh_job = PENDING" by (simp add: fresh_job_def new_Job_def)
  show ?thesis
    using g retry_job_resets_status_only [OF g, of "''t3''" "[]"]
      retry_job_resets_status_only [OF fresh_registry_get, of "''t3''" "[]"]
    by (auto simp: s)
qed

section \<open>Properties of the progress tracker\<close>

lemma update_keeps_inv:
  "progress_inv p \<Longrightarrow> progress_inv (JobProgress_update now p stg operation)"
  by (auto simp: progress_inv_def JobProgress_update_def Let_def)

lemma update_counter:
  "progress_inv p \<Longrightarrow>
   completed_stages (JobProgress_update now p stg operation) =
     (if JobStage_value stg \<in> set (stages_completed p)
      then completed_stages p else completed_stages p + 1)"
  by (auto simp: progress_inv_def JobProgress_update_def Let_def)

lemma update_percentage:
  "percentage (JobProgress_update now p stg operation) =
   real_of_int (completed_stages (JobProgress_update now p stg operation)) /
   real_of_int (total_stages (JobProgress_update now p stg operation)) * 100"
  by (auto simp: JobProgress_update_def Let_def)

lemma update_total:
  "total_stages (JobProgress_update now p stg operation) = total_stages p"
  by (auto simp: JobProgress_update_def Let_def)

lemma update_percentage_mono:
  assumes "progress_inv p"
    and "percentage p = real_of_int (completed_stages p) / real_of_int (total_stages p) * 100"
  shows "percentage p \<le> percentage (JobProgress_update now p stg operation)"
proof -
  have "0 < real_of_int (total_stages p)" using assms(1) by (simp add: progress_inv_def)
  moreover have "completed_stages p \<le> completed_stages (JobProgress_update now p stg operation)"
    by (simp add: update_counter [OF assms(1)])
  ultimately show ?thesis
    by (simp add: assms(2) update_percentage update_total divide_right_mono)
qed

lemma percentages_sorted_from:
  "progress_inv p \<Longrightarrow>
   percentage p = real_of_int (completed_stages p) / real_of_int (total_stages p) * 100 \<Longrightarrow>
   sorted (percentage p # percentages p calls)"
proof (induction calls arbitrary: p)
  case Nil
  then show ?case by simp
next
  case (Cons c calls)
  obtain now stg operation where c: "c = (now, stg, operation)" by (cases c)
  let ?p = "JobProgress_update now p stg operation"
  have "sorted (percentage ?p # percentages ?p calls)"
    by (rule Cons.IH [OF update_keeps_inv [OF Cons.prems(1)]]) (simp add: update_percentage)
  moreover have "percentage p \<le> percentage ?p" by (rule update_percentage_mono [OF Cons.prems])
  ultimately show ?case using c by (auto simp: Let_def)
qed

text \<open>
  C5. On a tracker that satisfies the invariant (as a new tracker does), every
  \<open>JobProgress.update\<close> leaves \<open>completed_stages\<close> as it is when the stage is
  already listed and adds one otherwise, sets the percentage to
  \<open>completed_stages / total_stages * 100\<close>, and keeps the invariant; the
  percentages after successive updates are non-decreasing.
\<close>

theorem progress_percentage_monotone:
  "progress_inv p \<Longrightarrow>
   completed_stages (JobProgress_update now p stg operation) =
     (if JobStage_value stg \<in> set (stages_completed p)
      then completed_stages p else completed_stages p + 1) \<and>
   percentage (JobProgress_update now p stg operation) =
     real_of_int (completed_stages (JobProgress_update now p stg operation)) /
     real_of_int (total_stages (JobProgress_update now p stg operation)) * 100 \<and>
   progress_inv (JobProgress_update now p stg operation) \<and>
   sorted (percentages p calls)"
proof (intro conjI)
  assume inv: "progress_inv p"
  show "sorted (percentages p calls)"
  proof (cases calls)
    case Nil
    then show ?thesis by simp
  next
    case (Cons c rest)
    obtain t s operation' where c: "c = (t, s, operation')" by (cases c)
    have "sorted (percentage (JobProgress_update t p s operation') #
                  percentages (JobProgress_update t p s operation') rest)"
      by (rule percentages_sorted_from [OF update_keeps_inv [OF inv]])
         (simp add: update_percentage)
    then show ?thesis using Cons c by (simp add: Let_def)
  qed
qed (simp_all add: update_counter update_percentage update_keeps_inv)

theorem progress_percentage_monotone_witness:
  "progress_inv (new_JobProgress ''t0'') \<and>
   completed_stages (JobProgress_update ''t1'' (new_JobProgress ''t0'') INITIALIZATION ''op'') = 1 \<and>
   percentage (JobProgress_update ''t1'' (new_JobProgress ''t0'') INITIALIZATION ''op'') = 100 / 7 \<and>
   sorted (percentages (new_JobProgress ''t0'')
     [(''t1'', INITIALIZATION, ''a''), (''t2'', INITIALIZATION, ''b''),
      (''t3'', DOCUMENT_RETRIEVAL, ''c'')]) \<and>
   percentages (new_JobProgress ''t0'')
     [(''t1'', INITIALIZATION, ''a''), (''t2'', INITIALIZATION, ''b''),
      (''t3'', DOCUMENT_RETRIEVAL, ''c'')] = [100 / 7, 100 / 7, 200 / 7]"
proof -
  have inv: "progress_inv (new_JobProgress ''t0'')"
    by (simp add: progress_inv_def new_JobProgress_def)
  have vals: "percentages (new_JobProgress ''t0'')
     [(''t1'', INITIALIZATION, ''a''), (''t2'', INITIALIZATION, ''b''),
      (''t3'', DOCUMENT_RETRIEVAL, ''c'')] = [100 / 7, 100 / 7, 200 / 7]"
    by (simp add: new_JobProgress_def JobProgress_update_def Let_def)
  show ?thesis
    using inv vals
      progress_percentage_monotone [OF inv, of "''t1''" INITIALIZATION "''op''"
        "[(''t1'', INITIALIZATION, ''a''), (''t2'', INITIALIZATION, ''b''),
          (''t3'', DOCUMENT_RETRIEVAL, ''c'')]"]
    by (simp add: new_JobProgress_def JobProgress_update_def Let_def)
qed

end
